theory Spec2Isabelle
  imports Main
begin

section \<open>JavaScript values and the guards of the Check module\<close>

text \<open>
  The guards of the Check and Return objects take any JavaScript value. The model keeps
  the values the guards can tell apart: \<open>undefined\<close>, \<open>null\<close>, booleans, numbers,
  strings, arrays and plain objects (own enumerable keys in insertion order). A number is
  only ever inspected through \<open>typeof\<close> here, so its payload is an integer.
\<close>

datatype jsvalue =
    Undefined
  | Null
  | Bool bool
  | Num int
  | Str string
  | Arr "jsvalue list"
  | Obj "(string \<times> jsvalue) list"

text \<open>What a \<open>throw\<close> carries: \<open>new Error(msg)\<close>, or a TypeError of the runtime.\<close>

datatype js_error = Error string | TypeError string

fun typeof :: "jsvalue \<Rightarrow> string" where
  "typeof Undefined = ''undefined''"
| "typeof Null = ''object''"
| "typeof (Bool b) = ''boolean''"
| "typeof (Num n) = ''number''"
| "typeof (Str s) = ''string''"
| "typeof (Arr xs) = ''object''"
| "typeof (Obj kvs) = ''object''"

fun Array_isArray :: "jsvalue \<Rightarrow> bool" where
  "Array_isArray (Arr xs) = True"
| "Array_isArray v = False"

text \<open>
  \<open>Object.keys\<close>: a TypeError on \<open>undefined\<close> and \<open>null\<close>, the own keys of an object,
  the indices of an array or a string, nothing for the other primitives.
\<close>

fun index_keys :: "nat \<Rightarrow> nat \<Rightarrow> nat list" where
  "index_keys i 0 = []"
| "index_keys i (Suc n) = i # index_keys (Suc i) n"

datatype js_key = Name string | Index nat

fun Object_keys :: "jsvalue \<Rightarrow> js_error + js_key list" where
  "Object_keys Undefined = Inl (TypeError ''Cannot convert undefined or null to object'')"
| "Object_keys Null = Inl (TypeError ''Cannot convert undefined or null to object'')"
| "Object_keys (Obj kvs) = Inr (map (\<lambda>kv. Name (fst kv)) kvs)"
| "Object_keys (Arr xs) = Inr (map Index (index_keys 0 (length xs)))"
| "Object_keys (Str s) = Inr (map Index (index_keys 0 (length s)))"
| "Object_keys v = Inr []"

text \<open>\<open>Check.isObject\<close>: not an array, and \<open>typeof item === "object"\<close>.\<close>

definition isObject :: "jsvalue \<Rightarrow> bool" where
  "isObject item = (if Array_isArray item = True then False else typeof item = ''object'')"

definition isArray :: "jsvalue \<Rightarrow> bool" where
  "isArray item = Array_isArray item"

definition isTypeOf :: "jsvalue \<Rightarrow> string \<Rightarrow> bool" where
  "isTypeOf item type = (typeof item = type)"

definition ifExists :: "jsvalue \<Rightarrow> bool" where
  "ifExists item = (typeof item \<noteq> ''undefined'')"

text \<open>
  \<open>Check.isEmpty.object\<close>: the type guard throws its own Error; past the guard,
  \<open>Object.keys(ob).length === 0\<close>, where \<open>Object.keys\<close> may throw in turn.
\<close>

definition isEmpty_object :: "jsvalue \<Rightarrow> js_error + bool" where
  "isEmpty_object ob =
     (if isObject ob = False then Inl (Error ''isEmpty.object() input is not an Object.'')
      else (case Object_keys ob of
              Inl e \<Rightarrow> Inl e
            | Inr ks \<Rightarrow> Inr (length ks = 0)))"

text \<open>The \<open>length\<close> property of an array or a string; \<open>undefined\<close> elsewhere.\<close>

fun js_length :: "jsvalue \<Rightarrow> nat option" where
  "js_length (Arr xs) = Some (length xs)"
| "js_length (Str s) = Some (length s)"
| "js_length v = None"

definition isEmpty_array :: "jsvalue \<Rightarrow> js_error + bool" where
  "isEmpty_array array =
     (if isArray array = False then Inl (Error ''isEmpty.array() input is not an Array.'')
      else Inr (js_length array = Some 0))"

definition isEmpty_string :: "jsvalue \<Rightarrow> js_error + bool" where
  "isEmpty_string string =
     (if isTypeOf string ''string'' = False
      then Inl (Error ''isEmpty.string() input is not a string.'')
      else Inr (js_length string = Some 0))"

text \<open>\<open>Check.forUndefined\<close> and \<open>Check.forNull\<close>; the template literal of \<open>forNull\<close>
  is only built when \<open>item\<close> is \<open>null\<close>, so it always reads \<open>null is null\<close>.\<close>

definition forUndefined :: "jsvalue \<Rightarrow> js_error + jsvalue" where
  "forUndefined item =
     (if typeof item = ''undefined'' then Inl (Error ''item is undefined'') else Inr item)"

definition forNull :: "jsvalue \<Rightarrow> js_error + jsvalue" where
  "forNull item = (if item = Null then Inl (Error (''null'' @ '' is null'')) else Inr item)"

text \<open>The wrappers of the Return object.\<close>

definition Return_element :: "jsvalue \<Rightarrow> js_error + jsvalue" where
  "Return_element item = forNull item"

definition Return_button :: "jsvalue \<Rightarrow> js_error + jsvalue" where
  "Return_button button = forNull button"

definition Return_string :: "jsvalue \<Rightarrow> js_error + jsvalue" where
  "Return_string string = forNull string"

definition Return_number :: "jsvalue \<Rightarrow> js_error + jsvalue" where
  "Return_number number = forUndefined number"

definition Return_any :: "jsvalue \<Rightarrow> js_error + jsvalue" where
  "Return_any item = forNull item"


section \<open>Identifiers\<close>

text \<open>
  \<open>Number.prototype.toString(36)\<close> on an integer: the digits \<open>0-9a-z\<close> of its
  magnitude, most significant first, after a minus sign when it is negative.
\<close>

definition digit36 :: "nat \<Rightarrow> char" where
  "digit36 d = ''0123456789abcdefghijklmnopqrstuvwxyz'' ! d"

fun toString36_nat :: "nat \<Rightarrow> string" where
  "toString36_nat n =
     (if n < 36 then [digit36 n] else toString36_nat (n div 36) @ [digit36 (n mod 36)])"

definition toString36 :: "int \<Rightarrow> string" where
  "toString36 i =
     (if i < 0 then CHR ''-'' # toString36_nat (nat (- i)) else toString36_nat (nat i))"

text \<open>\<open>s.slice(2)\<close> of a string.\<close>

definition slice_from :: "nat \<Rightarrow> string \<Rightarrow> string" where
  "slice_from n s = drop n s"

text \<open>
  \<open>generateUniqueId\<close> reads the clock and the random generator. The model takes both
  readings as arguments: \<open>now\<close> is the value of \<open>Date.now()\<close>, an integer number of
  milliseconds, and \<open>random36\<close> is the string \<open>Math.random().toString(36)\<close>, whose
  digits depend on the runtime's rendering of a fraction.
\<close>

definition generateUniqueId :: "int \<Rightarrow> string \<Rightarrow> string" where
  "generateUniqueId now random36 = toString36 now @ slice_from 2 random36"


section \<open>The extension's storage and what a click can observe\<close>

text \<open>The declared types: a Mark, the mapping from URL to Mark, the version string, and
  the two optional slots of the extension's local storage.\<close>

record Mark =
  mark_id :: string
  mark_favIconUrl :: string

type_synonym FollowMarks = "string \<rightharpoonup> Mark"

type_synonym FollowMarkVersion = string

record FollowMarkStorage =
  followMarkVersion :: "FollowMarkVersion option"
  followMarks :: "FollowMarks option"

datatype slot = FollowMarksKey | FollowMarkVersionKey

text \<open>
  Every call that leaves the extension's own code is recorded in a trace, in order: the
  active-tab query, a script injection into a tab, a write and a read of the local
  storage, the console, and an error that rejects a promise nobody awaits.

  A callback handed to the platform and not yet run is a pending task.
\<close>

datatype logged =
    LoggedItems FollowMarkStorage
  | LoggedVersion "FollowMarkVersion option"
  | LoggedMarks "FollowMarks option"

datatype event =
    TabsQuery
  | ExecuteScript int
  | StorageSet FollowMarkStorage
  | StorageGet slot
  | ConsoleLog logged
  | ConsoleError string js_error
  | UnhandledRejection js_error

datatype task = QueryCallback

record world =
  storage :: FollowMarkStorage
  trace :: "event list"
  pending :: "task list"

text \<open>
  \<open>chrome.storage.local.set(items)\<close> merges shallowly: each slot that \<open>items\<close> holds
  replaces the stored slot as a whole, and a slot that \<open>items\<close> leaves out is kept.
\<close>

definition storage_set :: "FollowMarkStorage \<Rightarrow> FollowMarkStorage \<Rightarrow> FollowMarkStorage" where
  "storage_set s items =
     \<lparr>followMarkVersion =
        (case followMarkVersion items of None \<Rightarrow> followMarkVersion s | Some v \<Rightarrow> Some v),
      followMarks =
        (case followMarks items of None \<Rightarrow> followMarks s | Some m \<Rightarrow> Some m)\<rparr>"

definition writeStorage :: "FollowMarkStorage \<Rightarrow> world \<Rightarrow> world" where
  "writeStorage items w =
     w\<lparr>storage := storage_set (storage w) items,
       trace := trace w @ [ConsoleLog (LoggedItems items), StorageSet items]\<rparr>"

text \<open>\<open>getStorage\<close> is overloaded on its key; each overload is a function here.\<close>

definition getStorage_followMarks :: "world \<Rightarrow> FollowMarks option \<times> world" where
  "getStorage_followMarks w =
     (followMarks (storage w),
      w\<lparr>trace := trace w @
          [StorageGet FollowMarksKey, ConsoleLog (LoggedMarks (followMarks (storage w)))]\<rparr>)"

definition getStorage_followMarkVersion :: "world \<Rightarrow> FollowMarkVersion option \<times> world" where
  "getStorage_followMarkVersion w =
     (followMarkVersion (storage w),
      w\<lparr>trace := trace w @
          [StorageGet FollowMarkVersionKey,
           ConsoleLog (LoggedVersion (followMarkVersion (storage w)))]\<rparr>)"


section \<open>Tabs, pages and the platform\<close>

text \<open>The fields of \<open>chrome.tabs.Tab\<close> that the code reads; each may be missing.\<close>

record tab =
  tab_id :: "int option"
  tab_url :: "string option"
  tab_title :: "string option"
  tab_favIconUrl :: "string option"

text \<open>A page's document, as far as the injected query looks at it: its elements in
  document order, each with its tag name, its \<open>rel\<close> attribute and its \<open>href\<close>
  property.\<close>

record element =
  tag :: string
  rel :: "string option"
  href :: string

type_synonym document = "element list"

text \<open>
  What the platform answers during one click: the packaged version, the tabs the
  active-tab query finds, for each tab id the documents of the frames an injection
  reaches (main frame first) and the error an injection is rejected with, if any, and
  the two readings of \<open>generateUniqueId\<close>.
\<close>

record platform =
  manifest_version :: string
  active_tabs :: "tab list"
  frames :: "int \<Rightarrow> document list"
  inject_error :: "int \<Rightarrow> js_error option"
  now :: int
  random36 :: string

text \<open>JavaScript truthiness, as \<open>!x\<close> reads it, of an optional string and of an
  optional object.\<close>

definition falsy_string :: "string option \<Rightarrow> bool" where
  "falsy_string s = (case s of None \<Rightarrow> True | Some u \<Rightarrow> u = [])"

definition falsy_object :: "'a option \<Rightarrow> bool" where
  "falsy_object ob = (case ob of None \<Rightarrow> True | Some x \<Rightarrow> False)"

text \<open>\<open>let x = field; if (!x) x = ""\<close>.\<close>

definition or_empty :: "string option \<Rightarrow> string" where
  "or_empty s = (if falsy_string s then [] else (case s of None \<Rightarrow> [] | Some u \<Rightarrow> u))"

definition startsWith :: "string \<Rightarrow> string \<Rightarrow> bool" where
  "startsWith s p = (take (length p) s = p)"

text \<open>
  The selector \<open>link[rel*="icon"]\<close>: an element whose local name is \<open>link\<close> and whose
  \<open>rel\<close> attribute contains \<open>icon\<close>. In an HTML document the value of \<open>rel\<close> is
  compared without regard to ASCII case, so \<open>rel="Shortcut Icon"\<close> matches.
  \<open>querySelector\<close> returns the first match in document order.
\<close>

fun str_includes :: "string \<Rightarrow> string \<Rightarrow> bool" where
  "str_includes [] p = (p = [])"
| "str_includes (c # cs) p = (startsWith (c # cs) p \<or> str_includes cs p)"

definition ascii_lower :: "char \<Rightarrow> char" where
  "ascii_lower c =
     (case map_of (zip ''ABCDEFGHIJKLMNOPQRSTUVWXYZ'' ''abcdefghijklmnopqrstuvwxyz'') c of
        None \<Rightarrow> c
      | Some l \<Rightarrow> l)"

definition link_rel_icon :: "element \<Rightarrow> bool" where
  "link_rel_icon e =
     (tag e = ''link'' \<and>
      (case rel e of None \<Rightarrow> False | Some r \<Rightarrow> str_includes (map ascii_lower r) ''icon''))"

definition querySelector :: "(element \<Rightarrow> bool) \<Rightarrow> document \<Rightarrow> element option" where
  "querySelector sel doc = find sel doc"

text \<open>The function that \<open>getInfoFromTab\<close> injects: \<open>link ? link.href : ""\<close>.\<close>

definition favicon_query :: "document \<Rightarrow> string" where
  "favicon_query doc =
     (case querySelector link_rel_icon doc of None \<Rightarrow> [] | Some link \<Rightarrow> href link)"

text \<open>\<open>chrome.scripting.executeScript\<close>: rejected with an error, or one result per
  frame reached.\<close>

definition executeScript ::
  "platform \<Rightarrow> int \<Rightarrow> (document \<Rightarrow> string) \<Rightarrow> world \<Rightarrow> (js_error + string list) \<times> world" where
  "executeScript p tabId func w =
     ((case inject_error p tabId of
         Some e \<Rightarrow> Inl e
       | None \<Rightarrow> Inr (map func (frames p tabId))),
      w\<lparr>trace := trace w @ [ExecuteScript tabId]\<rparr>)"

record tab_info =
  url :: string
  title :: string
  favIconUrl :: string

text \<open>
  \<open>getInfoFromTab\<close>. The argument is \<open>foundTabs[0]\<close>, which is \<open>undefined\<close> when the
  query found no tab; reading \<open>tab.url\<close> then throws. \<open>!tabId\<close> holds for a missing id
  and for the id 0. The \<open>try\<close> block is the injection and the test of
  \<open>results[0]?.result\<close>; the \<open>catch\<close> logs the error and falls through to the final
  \<open>return\<close>.
\<close>

definition getInfoFromTab ::
  "platform \<Rightarrow> tab option \<Rightarrow> world \<Rightarrow> (js_error + tab_info) \<times> world" where
  "getInfoFromTab p foundTab w =
     (case foundTab of
        None \<Rightarrow> (Inl (TypeError ''Cannot read properties of undefined''), w)
      | Some t \<Rightarrow>
          (let u = or_empty (tab_url t);
               ti = or_empty (tab_title t);
               f = or_empty (tab_favIconUrl t)
           in if startsWith f ''data:'' then
                (case tab_id t of
                   None \<Rightarrow> (Inr \<lparr>url = u, title = ti, favIconUrl = []\<rparr>, w)
                 | Some tabId \<Rightarrow>
                     if tabId = 0 then (Inr \<lparr>url = u, title = ti, favIconUrl = []\<rparr>, w)
                     else
                       (case executeScript p tabId favicon_query w of
                          (Inl error, w1) \<Rightarrow>
                            (Inr \<lparr>url = u, title = ti, favIconUrl = f\<rparr>,
                             w1\<lparr>trace := trace w1 @
                                 [ConsoleError ''Failed to fetch favicon:'' error]\<rparr>)
                        | (Inr results, w1) \<Rightarrow>
                            (Inr \<lparr>url = u, title = ti,
                                  favIconUrl =
                                    (case results of
                                       [] \<Rightarrow> f
                                     | r # rs \<Rightarrow> if r = [] then f else r)\<rparr>,
                             w1)))
              else (Inr \<lparr>url = u, title = ti, favIconUrl = f\<rparr>, w)))"


section \<open>The mark builder and the popup's click handler\<close>

text \<open>
  \<open>MakeMark\<close> calls \<open>chrome.tabs.query\<close> with a callback and returns: it awaits
  nothing, so its promise is resolved as soon as the query is issued, and the callback is
  left pending for a later turn of the event loop.
\<close>

definition MakeMark :: "world \<Rightarrow> world" where
  "MakeMark w = w\<lparr>trace := trace w @ [TabsQuery], pending := pending w @ [QueryCallback]\<rparr>"

text \<open>
  The callback that \<open>MakeMark\<close> passes to the query, run to its end with no other task
  in between. \<open>foundTabs\<close> is the platform's answer. An error thrown in the callback
  rejects a promise that is never handled, and nothing is written.
\<close>

definition MakeMark_callback :: "platform \<Rightarrow> world \<Rightarrow> world" where
  "MakeMark_callback p w =
     (let foundTabs = active_tabs p;
          foundTab = (case foundTabs of [] \<Rightarrow> None | t # ts \<Rightarrow> Some t)
      in case getInfoFromTab p foundTab w of
           (Inl e, w2) \<Rightarrow> w2\<lparr>trace := trace w2 @ [UnhandledRejection e]\<rparr>
         | (Inr info, w2) \<Rightarrow>
             writeStorage
               \<lparr>followMarkVersion = None,
                followMarks =
                  Some [url info \<mapsto>
                          \<lparr>mark_id = generateUniqueId (now p) (random36 p),
                           mark_favIconUrl = favIconUrl info\<rparr>]\<rparr>
               w2)"

text \<open>The event loop after a handler has returned: the pending callbacks run in the
  order in which they were registered.\<close>

fun run_task :: "platform \<Rightarrow> task \<Rightarrow> world \<Rightarrow> world" where
  "run_task p QueryCallback w = MakeMark_callback p w"

definition run_pending :: "platform \<Rightarrow> world \<Rightarrow> world" where
  "run_pending p w = fold (run_task p) (pending w) (w\<lparr>pending := []\<rparr>)"

text \<open>
  The \<open>onclick\<close> handler that \<open>Main\<close> installs on the popup's button. Its run is
  complete when its last \<open>await\<close> has resumed; \<open>await MakeMark()\<close> resumes once the
  query is issued, before the query's callback runs.
\<close>

definition onclick :: "platform \<Rightarrow> world \<Rightarrow> world" where
  "onclick p w =
     (case getStorage_followMarkVersion w of
        (followMarkVersionTest, w1) \<Rightarrow>
          (let w2 = (if falsy_string followMarkVersionTest
                     then writeStorage
                            \<lparr>followMarkVersion = Some (manifest_version p),
                             followMarks = None\<rparr> w1
                     else w1)
           in case getStorage_followMarks w2 of
                (followMarksTest, w3) \<Rightarrow>
                  if falsy_object followMarksTest then MakeMark w3 else w3))"

text \<open>What one click adds to the trace, and whether an event is a storage write.\<close>

definition click_events :: "platform \<Rightarrow> world \<Rightarrow> event list" where
  "click_events p w = drop (length (trace w)) (trace (onclick p w))"

fun is_write :: "event \<Rightarrow> bool" where
  "is_write (StorageSet items) = True"
| "is_write e = False"


section \<open>Concrete pages, tabs, platforms and stores\<close>

text \<open>The inputs at which the theorems below are instantiated and the code is evaluated.\<close>

definition icon_page :: document where
  "icon_page =
     [\<lparr>tag = ''meta'', rel = None, href = []\<rparr>,
      \<lparr>tag = ''link'', rel = Some ''icon'', href = ''https://x/icon.png''\<rparr>]"

definition mixed_case_page :: document where
  "mixed_case_page =
     [\<lparr>tag = ''link'', rel = Some ''stylesheet'', href = ''https://x/site.css''\<rparr>,
      \<lparr>tag = ''link'', rel = Some ''Shortcut Icon'', href = ''https://x/A.png''\<rparr>,
      \<lparr>tag = ''link'', rel = Some ''icon'', href = ''https://x/B.png''\<rparr>]"

definition linkless_page :: document where
  "linkless_page = [\<lparr>tag = ''link'', rel = Some ''stylesheet'', href = ''https://x/site.css''\<rparr>]"

definition data_tab :: tab where
  "data_tab =
     \<lparr>tab_id = Some 7, tab_url = Some ''https://x/'', tab_title = Some ''X'',
      tab_favIconUrl = Some ''data:image/png;base64,AAAA''\<rparr>"

definition plain_tab :: tab where
  "plain_tab =
     \<lparr>tab_id = Some 8, tab_url = Some ''https://a'', tab_title = Some ''A'',
      tab_favIconUrl = Some ''https://x/icon.ico''\<rparr>"

text \<open>A platform on which injections succeed, one whose pages spell \<open>rel\<close> in mixed
  case, one that rejects every injection, and one whose pages hold no matching link.\<close>

definition chrome_ok :: platform where
  "chrome_ok =
     \<lparr>manifest_version = ''1.0.0'', active_tabs = [plain_tab],
      frames = (\<lambda>i. [icon_page]), inject_error = (\<lambda>i. None),
      now = 1762070400000, random36 = ''0.4fzyo82mvyr''\<rparr>"

definition chrome_mixed :: platform where
  "chrome_mixed =
     \<lparr>manifest_version = ''1.0.0'', active_tabs = [data_tab],
      frames = (\<lambda>i. [mixed_case_page]), inject_error = (\<lambda>i. None),
      now = 1762070400000, random36 = ''0.4fzyo82mvyr''\<rparr>"

definition chrome_blocked :: platform where
  "chrome_blocked =
     \<lparr>manifest_version = ''1.0.0'', active_tabs = [data_tab],
      frames = (\<lambda>i. [icon_page]),
      inject_error = (\<lambda>i. Some (Error ''Cannot access contents of the page'')),
      now = 1762070400000, random36 = ''0.4fzyo82mvyr''\<rparr>"

definition chrome_linkless :: platform where
  "chrome_linkless =
     \<lparr>manifest_version = ''1.0.0'', active_tabs = [data_tab],
      frames = (\<lambda>i. [linkless_page]), inject_error = (\<lambda>i. None),
      now = 1762070400000, random36 = ''0.4fzyo82mvyr''\<rparr>"

definition empty_world :: world where
  "empty_world =
     \<lparr>storage = \<lparr>followMarkVersion = None, followMarks = None\<rparr>, trace = [], pending = []\<rparr>"

definition mark_b :: Mark where
  "mark_b = \<lparr>mark_id = ''mhhf7y7z1q'', mark_favIconUrl = ''https://b/icon.ico''\<rparr>"

definition world_b :: world where
  "world_b =
     \<lparr>storage = \<lparr>followMarkVersion = Some ''1.0.0'', followMarks = Some [''https://b'' \<mapsto> mark_b]\<rparr>,
      trace = [], pending = []\<rparr>"

definition world_no_marks :: world where
  "world_no_marks =
     \<lparr>storage = \<lparr>followMarkVersion = Some ''1.0.0'', followMarks = Some Map.empty\<rparr>,
      trace = [], pending = []\<rparr>"

text \<open>The Mark stored for a URL, if any.\<close>

definition stored_mark :: "FollowMarkStorage \<Rightarrow> string \<Rightarrow> Mark option" where
  "stored_mark s k = (case followMarks s of None \<Rightarrow> None | Some m \<Rightarrow> m k)"


section \<open>Properties of the guards\<close>

lemma typeof_undefined_iff: "typeof v = ''undefined'' \<longleftrightarrow> v = Undefined"
  by (cases v) simp_all

text \<open>
  Claim C8. A guard returns its input unchanged whenever the input is not the value it
  guards against, and throws an Error with a fixed message otherwise: \<open>Check.forNull\<close>
  and the wrappers \<open>Return.element\<close>, \<open>Return.button\<close>, \<open>Return.string\<close> and
  \<open>Return._any\<close> throw \<open>null is null\<close> on \<open>null\<close>; \<open>Check.forUndefined\<close> and
  \<open>Return.number\<close> throw \<open>item is undefined\<close> on \<open>undefined\<close>.
\<close>

theorem guards_return_input_or_throw:
  "(v \<noteq> Null \<longrightarrow>
      forNull v = Inr v \<and> Return_element v = Inr v \<and> Return_button v = Inr v \<and>
      Return_string v = Inr v \<and> Return_any v = Inr v) \<and>
   (v \<noteq> Undefined \<longrightarrow> forUndefined v = Inr v \<and> Return_number v = Inr v) \<and>
   forNull Null = Inl (Error ''null is null'') \<and>
   Return_element Null = Inl (Error ''null is null'') \<and>
   Return_button Null = Inl (Error ''null is null'') \<and>
   Return_string Null = Inl (Error ''null is null'') \<and>
   Return_any Null = Inl (Error ''null is null'') \<and>
   forUndefined Undefined = Inl (Error ''item is undefined'') \<and>
   Return_number Undefined = Inl (Error ''item is undefined'')"
  by (simp add: forNull_def forUndefined_def Return_element_def Return_button_def
      Return_string_def Return_number_def Return_any_def typeof_undefined_iff)

theorem guards_return_input_or_throw_witness:
  "Str ''stage'' \<noteq> Null \<and> Str ''stage'' \<noteq> Undefined \<and>
   forNull (Str ''stage'') = Inr (Str ''stage'') \<and>
   Return_string (Str ''stage'') = Inr (Str ''stage'') \<and>
   forUndefined (Str ''stage'') = Inr (Str ''stage'') \<and>
   Return_number (Str ''stage'') = Inr (Str ''stage'') \<and>
   forNull Null = Inl (Error ''null is null'') \<and>
   forUndefined Undefined = Inl (Error ''item is undefined'')"
  using guards_return_input_or_throw [of "Str ''stage''"] by simp

text \<open>
  Claim C9. \<open>Check.isObject(null)\<close> is true, since \<open>null\<close> is not an array and its
  \<open>typeof\<close> is \<open>object\<close>. So \<open>Check.isEmpty.object(null)\<close> passes the type guard: it
  does not throw the guard's Error, and fails in \<open>Object.keys\<close> with a TypeError instead.
\<close>

theorem isObject_null_passes_guard:
  "isObject Null = True \<and>
   isEmpty_object Null \<noteq> Inl (Error ''isEmpty.object() input is not an Object.'') \<and>
   isEmpty_object Null = Inl (TypeError ''Cannot convert undefined or null to object'')"
  by (simp add: isObject_def isEmpty_object_def)


section \<open>Properties of the identifiers\<close>

declare toString36_nat.simps [simp del]

lemma digits36_distinct: "distinct ''0123456789abcdefghijklmnopqrstuvwxyz''"
  by simp

lemma digit36_inj: "a < 36 \<Longrightarrow> b < 36 \<Longrightarrow> digit36 a = digit36 b \<Longrightarrow> a = b"
  unfolding digit36_def
  using digits36_distinct by (simp only: nth_eq_iff_index_eq length_Cons list.size)

lemma digit36_not_minus: "d < 36 \<Longrightarrow> digit36 d \<noteq> CHR ''-''"
proof -
  assume d: "d < 36"
  have "digit36 d \<in> set ''0123456789abcdefghijklmnopqrstuvwxyz''"
    unfolding digit36_def by (rule nth_mem) (use d in simp)
  then show ?thesis by auto
qed

lemma toString36_nat_nonempty: "toString36_nat n \<noteq> []"
  by (subst toString36_nat.simps) simp

lemma toString36_nat_no_minus: "CHR ''-'' \<notin> set (toString36_nat n)"
proof (induction n rule: toString36_nat.induct)
  case (1 n)
  show ?case
  proof (cases "n < 36")
    case True
    then show ?thesis
      by (subst toString36_nat.simps) (use digit36_not_minus [of n] in auto)
  next
    case False
    then show ?thesis
      using 1 digit36_not_minus [of "n mod 36"]
      by (subst toString36_nat.simps) auto
  qed
qed

lemma toString36_nat_inj: "toString36_nat n = toString36_nat m \<Longrightarrow> n = m"
proof (induction n arbitrary: m rule: toString36_nat.induct)
  case (1 n)
  show ?case
  proof (cases "n < 36")
    case n: True
    show ?thesis
    proof (cases "m < 36")
      case True
      with n "1.prems" show ?thesis
        by (simp add: toString36_nat.simps [of n] toString36_nat.simps [of m] digit36_inj)
    next
      case False
      with n "1.prems" show ?thesis
        by (simp add: toString36_nat.simps [of n] toString36_nat.simps [of m]
            toString36_nat_nonempty toString36_nat_nonempty [symmetric])
    qed
  next
    case n: False
    show ?thesis
    proof (cases "m < 36")
      case True
      with n "1.prems" show ?thesis
        by (simp add: toString36_nat.simps [of n] toString36_nat.simps [of m]
            toString36_nat_nonempty toString36_nat_nonempty [symmetric])
    next
      case False
      with n "1.prems" have q: "toString36_nat (n div 36) = toString36_nat (m div 36)"
        and r: "digit36 (n mod 36) = digit36 (m mod 36)"
        by (simp_all add: toString36_nat.simps [of n] toString36_nat.simps [of m])
      from "1.IH" [OF n q] have "n div 36 = m div 36" .
      moreover from r have "n mod 36 = m mod 36" by (intro digit36_inj) simp_all
      ultimately show ?thesis by (metis div_mult_mod_eq)
    qed
  qed
qed

lemma toString36_inj: "toString36 i = toString36 j \<Longrightarrow> i = j"
proof -
  assume e: "toString36 i = toString36 j"
  have hd_neg: "\<And>k. hd (toString36_nat k) \<noteq> CHR ''-''"
    using toString36_nat_no_minus toString36_nat_nonempty by (metis hd_in_set)
  show ?thesis
  proof (cases "i < 0")
    case i: True
    show ?thesis
    proof (cases "j < 0")
      case True
      with i e have "toString36_nat (nat (- i)) = toString36_nat (nat (- j))"
        by (simp add: toString36_def)
      then have "nat (- i) = nat (- j)" by (rule toString36_nat_inj)
      with i True show ?thesis by simp
    next
      case False
      with i e have "CHR ''-'' # toString36_nat (nat (- i)) = toString36_nat (nat j)"
        by (simp add: toString36_def)
      then have "hd (toString36_nat (nat j)) = CHR ''-''" by (metis list.sel(1))
      with hd_neg show ?thesis by blast
    qed
  next
    case i: False
    show ?thesis
    proof (cases "j < 0")
      case True
      with i e have "toString36_nat (nat i) = CHR ''-'' # toString36_nat (nat (- j))"
        by (simp add: toString36_def)
      then have "hd (toString36_nat (nat i)) = CHR ''-''" by (metis list.sel(1))
      with hd_neg show ?thesis by blast
    next
      case False
      with i e have "toString36_nat (nat i) = toString36_nat (nat j)"
        by (simp add: toString36_def)
      then have "nat i = nat j" by (rule toString36_nat_inj)
      with i False show ?thesis by simp
    qed
  qed
qed


text \<open>
  Claim C7, as stated, at one clock reading and one random draw: two calls that read the
  same millisecond and draw the same random number return the same string.
\<close>

theorem generateUniqueId_same_readings:
  "generateUniqueId 1762070400000 ''0.4fzyo82mvyr'' = ''mhhf7y804fzyo82mvyr'' \<and>
   \<not> generateUniqueId 1762070400000 ''0.4fzyo82mvyr''
       \<noteq> generateUniqueId 1762070400000 ''0.4fzyo82mvyr''"
  by (simp add: generateUniqueId_def toString36_def slice_from_def toString36_nat.simps
      digit36_def)

text \<open>
  Claim C7, amended. Each identifier is the base-36 rendering of the clock reading followed
  by the random rendering without its first two characters. Two calls whose clock readings
  render with the same number of digits (as two calls in immediate succession do, away
  from a power of 36) return the same string exactly when both the clock readings and the
  random suffixes coincide; so the strings differ as soon as either reading differs.
\<close>

theorem generateUniqueId_equal_iff:
  assumes "length (toString36 t1) = length (toString36 t2)"
  shows "generateUniqueId t1 r1 = toString36 t1 @ drop 2 r1 \<and>
     (generateUniqueId t1 r1 = generateUniqueId t2 r2
        \<longleftrightarrow> t1 = t2 \<and> drop 2 r1 = drop 2 r2)"
  using assms toString36_inj [of t1 t2]
  by (auto simp: generateUniqueId_def slice_from_def)

theorem generateUniqueId_equal_iff_witness:
  "length (toString36 1762070400000) = length (toString36 1762070400000) \<and>
   generateUniqueId 1762070400000 ''0.4fzyo82mvyr''
     \<noteq> generateUniqueId 1762070400000 ''0.9k2j5h1xq3''"
  using generateUniqueId_equal_iff
    [of 1762070400000 1762070400000 "''0.4fzyo82mvyr''" "''0.9k2j5h1xq3''"]
  by (simp add: generateUniqueId_def slice_from_def)



section \<open>Properties of the extractor, the mark builder and the click handler\<close>

lemma or_empty_Some: "or_empty (Some u) = u"
  by (simp add: or_empty_def falsy_string_def)

lemma or_empty_None: "or_empty None = []"
  by (simp add: or_empty_def falsy_string_def)

lemma getInfoFromTab_Some:
  "\<exists>fav es. getInfoFromTab p (Some t) w =
      (Inr \<lparr>url = or_empty (tab_url t), title = or_empty (tab_title t), favIconUrl = fav\<rparr>,
       w\<lparr>trace := trace w @ es\<rparr>) \<and>
     TabsQuery \<notin> set es \<and> \<not> list_ex is_write es"
proof (cases "startsWith (or_empty (tab_favIconUrl t)) ''data:''")
  case False
  then have "getInfoFromTab p (Some t) w =
      (Inr \<lparr>url = or_empty (tab_url t), title = or_empty (tab_title t),
            favIconUrl = or_empty (tab_favIconUrl t)\<rparr>, w\<lparr>trace := trace w @ []\<rparr>)"
    by (simp add: getInfoFromTab_def)
  moreover have "TabsQuery \<notin> set []" "\<not> list_ex is_write []" by simp_all
  ultimately show ?thesis by blast
next
  case d: True
  show ?thesis
  proof (cases "tab_id t")
    case None
    with d have "getInfoFromTab p (Some t) w =
      (Inr \<lparr>url = or_empty (tab_url t), title = or_empty (tab_title t),
            favIconUrl = []\<rparr>, w\<lparr>trace := trace w @ []\<rparr>)"
      by (simp add: getInfoFromTab_def)
    moreover have "TabsQuery \<notin> set []" "\<not> list_ex is_write []" by simp_all
  ultimately show ?thesis by blast
  next
    case (Some i)
    show ?thesis
    proof (cases "i = 0")
      case True
      with d Some have "getInfoFromTab p (Some t) w =
        (Inr \<lparr>url = or_empty (tab_url t), title = or_empty (tab_title t),
              favIconUrl = []\<rparr>, w\<lparr>trace := trace w @ []\<rparr>)"
        by (simp add: getInfoFromTab_def)
      moreover have "TabsQuery \<notin> set []" "\<not> list_ex is_write []" by simp_all
  ultimately show ?thesis by blast
    next
      case nz: False
      show ?thesis
      proof (cases "inject_error p i")
        case (Some e)
        with d \<open>tab_id t = Some i\<close> nz have "getInfoFromTab p (Some t) w =
          (Inr \<lparr>url = or_empty (tab_url t), title = or_empty (tab_title t),
                favIconUrl = or_empty (tab_favIconUrl t)\<rparr>,
           w\<lparr>trace := trace w @ [ExecuteScript i, ConsoleError ''Failed to fetch favicon:'' e]\<rparr>)"
          by (simp add: getInfoFromTab_def executeScript_def)
        moreover have "TabsQuery \<notin> set [ExecuteScript i, ConsoleError ''Failed to fetch favicon:'' e]"
          "\<not> list_ex is_write [ExecuteScript i, ConsoleError ''Failed to fetch favicon:'' e]"
          by simp_all
        ultimately show ?thesis by blast
      next
        case None
        with d \<open>tab_id t = Some i\<close> nz have "\<exists>fav. getInfoFromTab p (Some t) w =
          (Inr \<lparr>url = or_empty (tab_url t), title = or_empty (tab_title t),
                favIconUrl = fav\<rparr>,
           w\<lparr>trace := trace w @ [ExecuteScript i]\<rparr>)"
          by (simp add: getInfoFromTab_def executeScript_def Let_def)
        moreover have "TabsQuery \<notin> set [ExecuteScript i]" "\<not> list_ex is_write [ExecuteScript i]"
          by simp_all
        ultimately show ?thesis by blast
      qed
    qed
  qed
qed

lemma MakeMark_callback_found:
  assumes "active_tabs p = t # ts"
  shows "\<exists>fav es. MakeMark_callback p w =
      w\<lparr>storage := \<lparr>followMarkVersion = followMarkVersion (storage w),
                     followMarks = Some [or_empty (tab_url t) \<mapsto>
                        \<lparr>mark_id = generateUniqueId (now p) (random36 p),
                         mark_favIconUrl = fav\<rparr>]\<rparr>,
        trace := trace w @ es\<rparr> \<and> TabsQuery \<notin> set es"
proof -
  obtain fav es where g: "getInfoFromTab p (Some t) w =
      (Inr \<lparr>url = or_empty (tab_url t), title = or_empty (tab_title t), favIconUrl = fav\<rparr>,
       w\<lparr>trace := trace w @ es\<rparr>)"
    and es: "TabsQuery \<notin> set es" "\<not> list_ex is_write es"
    using getInfoFromTab_Some [of p t w] by blast
  let ?items = "\<lparr>followMarkVersion = None,
                followMarks = Some [or_empty (tab_url t) \<mapsto>
                        \<lparr>mark_id = generateUniqueId (now p) (random36 p),
                         mark_favIconUrl = fav\<rparr>]\<rparr>"
  have "MakeMark_callback p w =
      w\<lparr>storage := \<lparr>followMarkVersion = followMarkVersion (storage w),
                     followMarks = Some [or_empty (tab_url t) \<mapsto>
                        \<lparr>mark_id = generateUniqueId (now p) (random36 p),
                         mark_favIconUrl = fav\<rparr>]\<rparr>,
        trace := trace w @ (es @ [ConsoleLog (LoggedItems ?items), StorageSet ?items])\<rparr>"
    using assms g by (simp add: MakeMark_callback_def writeStorage_def storage_set_def)
  moreover have "TabsQuery \<notin> set (es @ [ConsoleLog (LoggedItems ?items), StorageSet ?items])"
    using es by simp
  ultimately show ?thesis by blast
qed

lemmas ex_defs = icon_page_def mixed_case_page_def linkless_page_def data_tab_def plain_tab_def
  chrome_ok_def chrome_mixed_def chrome_blocked_def chrome_linkless_def empty_world_def
  mark_b_def world_b_def world_no_marks_def

lemmas run_defs = getInfoFromTab_def executeScript_def favicon_query_def querySelector_def
  link_rel_icon_def ascii_lower_def startsWith_def or_empty_def falsy_string_def
  falsy_object_def Let_def MakeMark_def MakeMark_callback_def run_pending_def writeStorage_def
  storage_set_def getStorage_followMarks_def getStorage_followMarkVersion_def onclick_def
  click_events_def stored_mark_def

subsection \<open>The tab info extractor\<close>

text \<open>
  Claim C6. For a tab whose \<open>favIconUrl\<close> is present and does not start with
  \<open>data:\<close>, \<open>getInfoFromTab\<close> returns that \<open>favIconUrl\<close> unchanged and leaves the
  world as it found it: the trace gains no event, so no script is injected into the tab.
\<close>

theorem getInfoFromTab_plain_favicon:
  assumes "tab_favIconUrl t = Some f" and "\<not> startsWith f ''data:''"
  shows "getInfoFromTab p (Some t) w =
      (Inr \<lparr>url = or_empty (tab_url t), title = or_empty (tab_title t), favIconUrl = f\<rparr>, w)"
  using assms by (simp add: getInfoFromTab_def or_empty_Some)

theorem getInfoFromTab_plain_favicon_witness:
  "tab_favIconUrl plain_tab = Some ''https://x/icon.ico'' \<and>
   \<not> startsWith ''https://x/icon.ico'' ''data:'' \<and>
   getInfoFromTab chrome_ok (Some plain_tab) empty_world =
     (Inr \<lparr>url = ''https://a'', title = ''A'', favIconUrl = ''https://x/icon.ico''\<rparr>, empty_world) \<and>
   trace (snd (getInfoFromTab chrome_ok (Some plain_tab) empty_world)) = []"
  using getInfoFromTab_plain_favicon [of plain_tab "''https://x/icon.ico''" chrome_ok empty_world]
  by (simp add: plain_tab_def startsWith_def or_empty_def falsy_string_def empty_world_def)

text \<open>
  Claim C5, as stated, at a tab whose favicon is a data URI and whose page holds a
  \<open>link\<close> element with \<open>rel="icon"\<close> and a non-empty \<open>href\<close>: when the platform
  rejects the injection, the extractor returns the data URI, not the link's \<open>href\<close>.
\<close>

theorem getInfoFromTab_data_favicon_counterexample:
  "tab_favIconUrl data_tab = Some ''data:image/png;base64,AAAA'' \<and>
   startsWith ''data:image/png;base64,AAAA'' ''data:'' \<and>
   frames chrome_blocked 7 = [icon_page] \<and>
   querySelector link_rel_icon icon_page
     = Some \<lparr>tag = ''link'', rel = Some ''icon'', href = ''https://x/icon.png''\<rparr> \<and>
   fst (getInfoFromTab chrome_blocked (Some data_tab) empty_world)
     = Inr \<lparr>url = ''https://x/'', title = ''X'', favIconUrl = ''data:image/png;base64,AAAA''\<rparr>"
  by (simp add: ex_defs run_defs)

text \<open>
  Claim C5, amended. For a tab whose \<open>favIconUrl\<close> is a data URI and whose id is
  present and not 0, when the injection into the tab succeeds and the first element
  matching \<open>link[rel*="icon"]\<close> in the document of the first frame reached has a
  non-empty \<open>href\<close>, \<open>getInfoFromTab\<close> returns that \<open>href\<close> as \<open>favIconUrl\<close>, after
  exactly one injection.
\<close>

theorem getInfoFromTab_data_favicon_resolved:
  assumes "tab_favIconUrl t = Some f" and "startsWith f ''data:''"
    and "tab_id t = Some i" and "i \<noteq> 0"
    and "inject_error p i = None"
    and "frames p i = doc # docs"
    and "querySelector link_rel_icon doc = Some l" and "href l \<noteq> []"
  shows "getInfoFromTab p (Some t) w =
      (Inr \<lparr>url = or_empty (tab_url t), title = or_empty (tab_title t), favIconUrl = href l\<rparr>,
       w\<lparr>trace := trace w @ [ExecuteScript i]\<rparr>)"
  using assms
  by (simp add: getInfoFromTab_def executeScript_def favicon_query_def or_empty_Some Let_def)

theorem getInfoFromTab_data_favicon_resolved_witness:
  "tab_favIconUrl data_tab = Some ''data:image/png;base64,AAAA'' \<and>
   startsWith ''data:image/png;base64,AAAA'' ''data:'' \<and>
   tab_id data_tab = Some 7 \<and> inject_error chrome_mixed 7 = None \<and>
   frames chrome_mixed 7 = mixed_case_page # [] \<and>
   querySelector link_rel_icon mixed_case_page
     = Some \<lparr>tag = ''link'', rel = Some ''Shortcut Icon'', href = ''https://x/A.png''\<rparr> \<and>
   getInfoFromTab chrome_mixed (Some data_tab) empty_world =
     (Inr \<lparr>url = ''https://x/'', title = ''X'', favIconUrl = ''https://x/A.png''\<rparr>,
      empty_world\<lparr>trace := [ExecuteScript 7]\<rparr>)"
proof -
  have q: "querySelector link_rel_icon mixed_case_page
     = Some \<lparr>tag = ''link'', rel = Some ''Shortcut Icon'', href = ''https://x/A.png''\<rparr>"
    by (simp add: mixed_case_page_def querySelector_def link_rel_icon_def ascii_lower_def
        startsWith_def)
  show ?thesis
    using getInfoFromTab_data_favicon_resolved
      [of data_tab "''data:image/png;base64,AAAA''" 7 chrome_mixed mixed_case_page "[]"
          "\<lparr>tag = ''link'', rel = Some ''Shortcut Icon'', href = ''https://x/A.png''\<rparr>"
          empty_world] q
    by (simp add: data_tab_def chrome_mixed_def empty_world_def startsWith_def or_empty_def
        falsy_string_def)
qed

text \<open>
  Claim C1, evaluated on a tab with a data-URI favicon. When the injection is rejected,
  and when the page holds no matching link, \<open>getInfoFromTab\<close> returns without an error
  but keeps the original data URI as \<open>favIconUrl\<close>; only the path of a tab without an id
  returns the empty string.
\<close>

theorem getInfoFromTab_failed_lookup_keeps_data_uri:
  "getInfoFromTab chrome_blocked (Some data_tab) empty_world =
     (Inr \<lparr>url = ''https://x/'', title = ''X'', favIconUrl = ''data:image/png;base64,AAAA''\<rparr>,
      empty_world\<lparr>trace :=
        [ExecuteScript 7,
         ConsoleError ''Failed to fetch favicon:'' (Error ''Cannot access contents of the page'')]\<rparr>) \<and>
   getInfoFromTab chrome_linkless (Some data_tab) empty_world =
     (Inr \<lparr>url = ''https://x/'', title = ''X'', favIconUrl = ''data:image/png;base64,AAAA''\<rparr>,
      empty_world\<lparr>trace := [ExecuteScript 7]\<rparr>) \<and>
   getInfoFromTab chrome_ok (Some (data_tab\<lparr>tab_id := None\<rparr>)) empty_world =
     (Inr \<lparr>url = ''https://x/'', title = ''X'', favIconUrl = []\<rparr>, empty_world)"
  by (simp add: ex_defs run_defs)

subsection \<open>The mark builder\<close>

text \<open>
  Claim C2, as stated, on a store whose \<open>followMarks\<close> holds an entry for
  \<open>https://b\<close>: after \<open>MakeMark\<close> and its callback have written the entry for
  \<open>https://a\<close> under the shallow merge of \<open>set\<close>, the entry for \<open>https://b\<close> is gone.
\<close>

theorem MakeMark_replaces_mapping_counterexample:
  "stored_mark (storage world_b) ''https://b'' = Some mark_b \<and>
   stored_mark (storage (MakeMark_callback chrome_ok (MakeMark world_b))) ''https://a''
     = Some \<lparr>mark_id = ''mhhf7y804fzyo82mvyr'', mark_favIconUrl = ''https://x/icon.ico''\<rparr> \<and>
   stored_mark (storage (MakeMark_callback chrome_ok (MakeMark world_b))) ''https://b'' = None"
  by (simp add: ex_defs run_defs generateUniqueId_def toString36_def slice_from_def
      toString36_nat.simps digit36_def)

text \<open>
  Claim C2, amended. When the query finds an active tab, \<open>MakeMark\<close> and its callback
  leave in the \<open>followMarks\<close> slot the mapping with the single entry for that tab's URL,
  whatever the slot held before: the shallow merge of \<open>set\<close> replaces the slot as a
  whole, so no entry for any other URL remains. The \<open>followMarkVersion\<close> slot is kept.
\<close>

theorem MakeMark_writes_single_entry:
  assumes "active_tabs p = t # ts"
  shows "\<exists>fav. followMarks (storage (MakeMark_callback p (MakeMark w))) =
        Some [or_empty (tab_url t) \<mapsto>
                \<lparr>mark_id = generateUniqueId (now p) (random36 p), mark_favIconUrl = fav\<rparr>] \<and>
      followMarkVersion (storage (MakeMark_callback p (MakeMark w))) =
        followMarkVersion (storage w) \<and>
      (\<forall>b. b \<noteq> or_empty (tab_url t) \<longrightarrow>
           stored_mark (storage (MakeMark_callback p (MakeMark w))) b = None)"
proof -
  obtain fav es where "MakeMark_callback p (MakeMark w) =
      (MakeMark w)\<lparr>storage := \<lparr>followMarkVersion = followMarkVersion (storage (MakeMark w)),
                     followMarks = Some [or_empty (tab_url t) \<mapsto>
                        \<lparr>mark_id = generateUniqueId (now p) (random36 p),
                         mark_favIconUrl = fav\<rparr>]\<rparr>,
        trace := trace (MakeMark w) @ es\<rparr>"
    using MakeMark_callback_found [OF assms, of "MakeMark w"] by blast
  then have "followMarks (storage (MakeMark_callback p (MakeMark w))) =
        Some [or_empty (tab_url t) \<mapsto>
                \<lparr>mark_id = generateUniqueId (now p) (random36 p), mark_favIconUrl = fav\<rparr>] \<and>
      followMarkVersion (storage (MakeMark_callback p (MakeMark w))) =
        followMarkVersion (storage w) \<and>
      (\<forall>b. b \<noteq> or_empty (tab_url t) \<longrightarrow>
           stored_mark (storage (MakeMark_callback p (MakeMark w))) b = None)"
    by (simp add: stored_mark_def MakeMark_def)
  then show ?thesis by blast
qed

theorem MakeMark_writes_single_entry_witness:
  "active_tabs chrome_ok = plain_tab # [] \<and>
   followMarks (storage (MakeMark_callback chrome_ok (MakeMark world_b)))
     = Some [''https://a'' \<mapsto>
          \<lparr>mark_id = ''mhhf7y804fzyo82mvyr'', mark_favIconUrl = ''https://x/icon.ico''\<rparr>] \<and>
   followMarkVersion (storage (MakeMark_callback chrome_ok (MakeMark world_b))) = Some ''1.0.0'' \<and>
   stored_mark (storage (MakeMark_callback chrome_ok (MakeMark world_b))) ''https://b'' = None"
  using MakeMark_writes_single_entry [of chrome_ok plain_tab "[]" world_b]
  by (simp add: ex_defs run_defs generateUniqueId_def toString36_def slice_from_def
      toString36_nat.simps digit36_def)

subsection \<open>The click handler\<close>

text \<open>What a first click does, in general: when its run is complete the handler has
  written the version and has left the query's callback pending; the mark is written
  only when the event loop runs that callback.\<close>

lemma onclick_first_run_handler:
  assumes "followMarkVersion (storage w) = None" and "followMarks (storage w) = None"
  shows "storage (onclick p w) =
      \<lparr>followMarkVersion = Some (manifest_version p), followMarks = None\<rparr> \<and>
     pending (onclick p w) = pending w @ [QueryCallback]"
  using assms
  by (simp add: onclick_def getStorage_followMarkVersion_def getStorage_followMarks_def
      writeStorage_def storage_set_def falsy_string_def falsy_object_def Let_def MakeMark_def)

lemma onclick_first_run_settled:
  assumes "followMarkVersion (storage w) = None" and "followMarks (storage w) = None"
    and "pending w = []" and "active_tabs p = t # ts"
  shows "followMarkVersion (storage (run_pending p (onclick p w))) = Some (manifest_version p) \<and>
     (\<exists>fav. followMarks (storage (run_pending p (onclick p w))) =
        Some [or_empty (tab_url t) \<mapsto>
                \<lparr>mark_id = generateUniqueId (now p) (random36 p), mark_favIconUrl = fav\<rparr>])"
proof -
  let ?w1 = "(onclick p w)\<lparr>pending := []\<rparr>"
  from onclick_first_run_handler [OF assms(1,2), of p] assms(3)
  have st: "storage (onclick p w) =
      \<lparr>followMarkVersion = Some (manifest_version p), followMarks = None\<rparr>"
    and pe: "pending (onclick p w) = [QueryCallback]"
    by simp_all
  from pe have run: "run_pending p (onclick p w) = MakeMark_callback p ?w1"
    by (simp add: run_pending_def)
  obtain fav es where "MakeMark_callback p ?w1 =
      ?w1\<lparr>storage := \<lparr>followMarkVersion = followMarkVersion (storage ?w1),
                     followMarks = Some [or_empty (tab_url t) \<mapsto>
                        \<lparr>mark_id = generateUniqueId (now p) (random36 p),
                         mark_favIconUrl = fav\<rparr>]\<rparr>,
        trace := trace ?w1 @ es\<rparr>"
    using MakeMark_callback_found [OF assms(4), of ?w1] by blast
  with run st have "followMarkVersion (storage (run_pending p (onclick p w))) =
        Some (manifest_version p) \<and>
      followMarks (storage (run_pending p (onclick p w))) =
        Some [or_empty (tab_url t) \<mapsto>
                \<lparr>mark_id = generateUniqueId (now p) (random36 p), mark_favIconUrl = fav\<rparr>]"
    by simp
  then show ?thesis by blast
qed

text \<open>
  Claim C3, evaluated on a first click with both slots absent and the active tab at
  \<open>https://a\<close>. When the run of the click handler is complete, \<open>followMarkVersion\<close>
  equals the manifest's version but \<open>followMarks\<close> is still absent: \<open>await MakeMark()\<close>
  has resumed with the query's callback pending. The slot holds its one entry, keyed by
  the tab's URL, only after the event loop has run that callback.
\<close>

theorem onclick_first_run_marks_pending:
  "followMarkVersion (storage (onclick chrome_ok empty_world)) = Some ''1.0.0'' \<and>
   followMarks (storage (onclick chrome_ok empty_world)) = None \<and>
   pending (onclick chrome_ok empty_world) = [QueryCallback] \<and>
   followMarkVersion (storage (run_pending chrome_ok (onclick chrome_ok empty_world)))
     = Some ''1.0.0'' \<and>
   followMarks (storage (run_pending chrome_ok (onclick chrome_ok empty_world)))
     = Some [''https://a'' \<mapsto>
          \<lparr>mark_id = ''mhhf7y804fzyo82mvyr'', mark_favIconUrl = ''https://x/icon.ico''\<rparr>] \<and>
   pending (run_pending chrome_ok (onclick chrome_ok empty_world)) = []"
  by (simp add: ex_defs run_defs generateUniqueId_def toString36_def slice_from_def
      toString36_nat.simps digit36_def)

text \<open>
  Claim C4. When both slots are populated, the version with a non-empty string as after
  a first run (the test is JavaScript truthiness, and a manifest's version is never
  empty), a further click reads both slots and does nothing else: the store is
  unchanged and the click issues no write.
\<close>

theorem onclick_populated_no_write:
  assumes "followMarkVersion (storage w) = Some v" and "v \<noteq> []"
    and "followMarks (storage w) = Some m"
  shows "storage (onclick p w) = storage w \<and>
     click_events p w =
       [StorageGet FollowMarkVersionKey, ConsoleLog (LoggedVersion (Some v)),
        StorageGet FollowMarksKey, ConsoleLog (LoggedMarks (Some m))] \<and>
     \<not> list_ex is_write (click_events p w)"
  using assms
  by (simp add: click_events_def onclick_def getStorage_followMarkVersion_def
      getStorage_followMarks_def falsy_string_def falsy_object_def Let_def)

theorem onclick_populated_no_write_witness:
  "followMarkVersion (storage (run_pending chrome_ok (onclick chrome_ok empty_world)))
     = Some ''1.0.0'' \<and>
   ''1.0.0'' \<noteq> [] \<and>
   followMarks (storage (run_pending chrome_ok (onclick chrome_ok empty_world)))
     = Some [''https://a'' \<mapsto>
          \<lparr>mark_id = ''mhhf7y804fzyo82mvyr'', mark_favIconUrl = ''https://x/icon.ico''\<rparr>] \<and>
   storage (onclick chrome_blocked (run_pending chrome_ok (onclick chrome_ok empty_world)))
     = storage (run_pending chrome_ok (onclick chrome_ok empty_world)) \<and>
   \<not> list_ex is_write
       (click_events chrome_blocked (run_pending chrome_ok (onclick chrome_ok empty_world)))"
proof -
  have v: "followMarkVersion (storage (run_pending chrome_ok (onclick chrome_ok empty_world)))
     = Some ''1.0.0''"
    and m: "followMarks (storage (run_pending chrome_ok (onclick chrome_ok empty_world)))
     = Some [''https://a'' \<mapsto>
          \<lparr>mark_id = ''mhhf7y804fzyo82mvyr'', mark_favIconUrl = ''https://x/icon.ico''\<rparr>]"
    by (simp_all add: ex_defs run_defs generateUniqueId_def toString36_def slice_from_def
      toString36_nat.simps digit36_def)
  have ne: "''1.0.0'' \<noteq> []" by simp
  from onclick_populated_no_write [OF v ne m, of chrome_blocked] v m ne
  show ?thesis by blast
qed

text \<open>
  Claim C10. In any state whose \<open>followMarks\<close> slot holds a mapping, the empty mapping
  included, a click does not call \<open>MakeMark\<close>: no active-tab query is issued, which is
  the first thing \<open>MakeMark\<close> does and which nothing else does, and the slot is left as it
  was. When the slot is absent, the click does call \<open>MakeMark\<close>.
\<close>

theorem onclick_MakeMark_only_when_absent:
  "(followMarks (storage w) \<noteq> None \<longrightarrow>
      TabsQuery \<notin> set (click_events p w) \<and>
      followMarks (storage (onclick p w)) = followMarks (storage w)) \<and>
   (followMarks (storage w) = None \<longrightarrow> TabsQuery \<in> set (click_events p w))"
proof (intro conjI impI)
  assume "followMarks (storage w) \<noteq> None"
  then obtain m where m: "followMarks (storage w) = Some m" by blast
  then show "TabsQuery \<notin> set (click_events p w)"
    by (simp add: click_events_def onclick_def getStorage_followMarkVersion_def
        getStorage_followMarks_def writeStorage_def storage_set_def falsy_object_def Let_def)
  from m show "followMarks (storage (onclick p w)) = followMarks (storage w)"
    by (simp add: click_events_def onclick_def getStorage_followMarkVersion_def
        getStorage_followMarks_def writeStorage_def storage_set_def falsy_object_def Let_def)
next
  assume n: "followMarks (storage w) = None"
  show "TabsQuery \<in> set (click_events p w)"
  proof (cases "falsy_string (followMarkVersion (storage w))")
    case True
    with n show ?thesis
      by (simp add: click_events_def onclick_def getStorage_followMarkVersion_def
          getStorage_followMarks_def writeStorage_def storage_set_def falsy_object_def
          Let_def MakeMark_def)
  next
    case False
    with n show ?thesis
      by (simp add: click_events_def onclick_def getStorage_followMarkVersion_def
          getStorage_followMarks_def falsy_object_def Let_def MakeMark_def)
  qed
qed

theorem onclick_MakeMark_only_when_absent_witness:
  "followMarks (storage world_no_marks) = Some Map.empty \<and>
   TabsQuery \<notin> set (click_events chrome_ok world_no_marks) \<and>
   followMarks (storage (onclick chrome_ok world_no_marks)) = Some Map.empty \<and>
   followMarks (storage empty_world) = None \<and>
   TabsQuery \<in> set (click_events chrome_ok empty_world)"
  using onclick_MakeMark_only_when_absent [of world_no_marks chrome_ok]
    onclick_MakeMark_only_when_absent [of empty_world chrome_ok]
  by (simp add: world_no_marks_def empty_world_def)

end
